theory Spec2Isabelle
  imports Complex_Main "HOL-Library.FSet" "HOL-Library.Word"
begin

section \<open>The socket gateway and its room registry\<close>

text \<open>
  The server keeps one in-process table \<^verbatim>\<open>const rooms = new Map()\<close>, from a room id to
  \<^verbatim>\<open>{ videoState: { isPlaying, currentTime }, users: Set }\<close>, and four socket handlers
  (\<^verbatim>\<open>join-room\<close>, \<^verbatim>\<open>video-state-change\<close>, \<^verbatim>\<open>chat-message\<close>, \<^verbatim>\<open>disconnect\<close>).
  Socket ids and room ids are opaque keys, so they are the type parameters \<open>'c\<close> and
  \<open>'r\<close> of the handlers. Where a socket's id is used as the name of a room (below, when a
  socket connects) the two are one type \<open>'k\<close>. A JavaScript \<^verbatim>\<open>Set\<close> is finite: it is an
  \<open>fset\<close>, and its \<^verbatim>\<open>size\<close> is \<open>fcard\<close>.
\<close>

record video_state =
  isPlaying :: bool
  currentTime :: real

record 'c session =
  videoState :: video_state
  users :: "'c fset"

text \<open>A document of the \<^verbatim>\<open>Message\<close> collection (\<^verbatim>\<open>messageSchema\<close>).\<close>

record 'r message_doc =
  room :: 'r
  user :: string
  message :: string
  timestamp :: nat

text \<open>
  The state the handlers read and write: the \<^verbatim>\<open>rooms\<close> map, the membership of the
  broadcast rooms of socket.io (what \<^verbatim>\<open>socket.join(roomId)\<close> adds to and what
  \<^verbatim>\<open>socket.to(roomId)\<close> and \<^verbatim>\<open>io.to(roomId)\<close> address; a socket that disconnects has
  left all of them when its \<^verbatim>\<open>disconnect\<close> handler runs), and the \<^verbatim>\<open>Message\<close>
  collection in insertion order. A broadcast room holds the sockets that entered it
  through \<^verbatim>\<open>socket.join\<close> and, when its name is the id of a connected socket, that socket:
  socket.io puts every socket that connects in the room named by its own id.
\<close>

record ('c, 'r) server =
  rooms :: "'r \<rightharpoonup> 'c session"
  adapter :: "'r \<Rightarrow> 'c fset"
  messages :: "'r message_doc list"

text \<open>What a handler does besides changing the state, in the order it does it.\<close>

datatype payload =
  VideoStateUpdate video_state
  | ChatBroadcast string string nat

datatype ('c, 'r) effect =
  Emit "'c fset" string payload
  | DbInsert "'r message_doc"
  | LogError string

text \<open>A document of the \<^verbatim>\<open>Room\<close> collection (\<^verbatim>\<open>roomSchema\<close>); a \<^verbatim>\<open>String\<close> path that is
  not set is \<open>None\<close>.\<close>

record room_doc =
  name :: "string option"
  videoUrl :: "string option"
  isLocalFile :: bool
  localFilePath :: "string option"
  pin :: string
  creator :: "string option"

type_synonym byte = "8 word"

text \<open>
  What the handlers take from outside: \<^verbatim>\<open>jwt.verify\<close> with the server's secret (the
  decoded \<^verbatim>\<open>id\<close> on success, \<open>None\<close> where it throws or reports an error; the token is
  \<open>None\<close> when the client sent none), the \<^verbatim>\<open>User\<close> collection that
  \<^verbatim>\<open>populate('user', 'username')\<close> reads (user id to username), \<^verbatim>\<open>Room.findById\<close>
  (\<open>None\<close> when the query rejects, \<open>Some None\<close> when there is no such room), and the
  files of the host by path.
\<close>

record environment =
  jwt_verify :: "string option \<Rightarrow> string option"
  usernames :: "string \<rightharpoonup> string"
  findRoom :: "string \<Rightarrow> room_doc option option"
  files :: "string \<rightharpoonup> byte list"

text \<open>How the store answers during one \<^verbatim>\<open>chat-message\<close>: both calls succeed,
  \<^verbatim>\<open>newMessage.save()\<close> rejects, or the \<^verbatim>\<open>findById\<close> query after it rejects.\<close>

datatype store_outcome = StoreOk | SaveFails | FindFails

definition default_session :: "'c session" where
  "default_session =
     \<lparr>videoState = \<lparr>isPlaying = False, currentTime = 0\<rparr>, users = {||}\<rparr>"

definition initial :: "('c, 'r) server" where
  "initial = \<lparr>rooms = Map.empty, adapter = (\<lambda>_. {||}), messages = []\<rparr>"

text \<open>
  \<^verbatim>\<open>io.on('connection', (socket) => ...)\<close>: when the callback runs, socket.io has put the
  socket in the broadcast room named by its own id; the callback itself only logs to the
  console (not recorded) and registers the four handlers.
\<close>

definition connect ::
  "('k, 'k) server \<Rightarrow> 'k \<Rightarrow> ('k, 'k) server \<times> ('k, 'k) effect list" where
  "connect st c = (st\<lparr>adapter := (adapter st)(c := finsert c (adapter st c))\<rparr>, [])"

text \<open>\<^verbatim>\<open>socket.on('join-room', (roomId) => ...)\<close>\<close>

definition join_room ::
  "('c, 'r) server \<Rightarrow> 'c \<Rightarrow> 'r \<Rightarrow> ('c, 'r) server \<times> ('c, 'r) effect list" where
  "join_room st c r =
     (let st1 = st\<lparr>adapter := (adapter st)(r := finsert c (adapter st r))\<rparr>;
          st2 = (if rooms st1 r = None
                 then st1\<lparr>rooms := (rooms st1)(r \<mapsto> default_session)\<rparr>
                 else st1)
      in (case rooms st2 r of
            None \<Rightarrow> (st2, [])
          | Some s \<Rightarrow>
              (st2\<lparr>rooms := (rooms st2)(r \<mapsto> s\<lparr>users := finsert c (users s)\<rparr>)\<rparr>, [])))"

text \<open>\<^verbatim>\<open>socket.on('video-state-change', ({ roomId, videoState }) => ...)\<close>:
  \<^verbatim>\<open>socket.to(roomId)\<close> addresses the broadcast room without the sending socket.\<close>

definition video_state_change ::
  "('c, 'r) server \<Rightarrow> 'c \<Rightarrow> 'r \<Rightarrow> video_state \<Rightarrow> ('c, 'r) server \<times> ('c, 'r) effect list" where
  "video_state_change st c r vs =
     (case rooms st r of
        None \<Rightarrow> (st, [])
      | Some s \<Rightarrow>
          (st\<lparr>rooms := (rooms st)(r \<mapsto> s\<lparr>videoState := vs\<rparr>)\<rparr>,
           [Emit (adapter st r |-| {|c|}) ''video-state-update'' (VideoStateUpdate vs)]))"

text \<open>
  \<^verbatim>\<open>newMessage.save()\<close>: the document is added to the collection and its \<^verbatim>\<open>_id\<close> is
  its position there. \<open>None\<close> when the write is rejected, and then nothing is stored.
\<close>

definition save ::
  "store_outcome \<Rightarrow> 'r message_doc list \<Rightarrow> 'r message_doc
     \<Rightarrow> ('r message_doc list \<times> nat) option" where
  "save oc coll doc = (if oc = SaveFails then None else Some (coll @ [doc], length coll))"

text \<open>
  \<^verbatim>\<open>Message.findById(newMessage._id).populate('user', 'username')\<close>: \<open>None\<close> when the
  query rejects; otherwise the document with that \<^verbatim>\<open>_id\<close> (if any) with its \<^verbatim>\<open>user\<close>
  replaced by the username, or by null when no such user exists.
\<close>

definition findById_populate ::
  "environment \<Rightarrow> store_outcome \<Rightarrow> 'r message_doc list \<Rightarrow> nat
     \<Rightarrow> ('r message_doc \<times> string option) option option" where
  "findById_populate env oc coll i =
     (if oc = FindFails then None
      else Some (if i < length coll
                 then Some (coll ! i, usernames env (user (coll ! i)))
                 else None))"

text \<open>
  \<^verbatim>\<open>socket.on('chat-message', async ({ roomId, message, token }) => ...)\<close>. The
  timestamp of the new document is the clock reading \<open>now\<close> (the schema default
  \<^verbatim>\<open>Date.now\<close>). Every throw inside the \<^verbatim>\<open>try\<close> (a token that does not verify, a
  rejected store call, reading \<^verbatim>\<open>.username\<close> of a null user) ends in the \<^verbatim>\<open>catch\<close>,
  which only logs. \<^verbatim>\<open>io.to(roomId)\<close> addresses the whole broadcast room. The handler
  is taken as one step: what other handlers do while it awaits the store is not modelled.
\<close>

definition chat_message ::
  "environment \<Rightarrow> ('c, 'r) server \<Rightarrow> 'c \<Rightarrow> 'r \<Rightarrow> string \<Rightarrow> string option \<Rightarrow> nat
     \<Rightarrow> store_outcome \<Rightarrow> ('c, 'r) server \<times> ('c, 'r) effect list" where
  "chat_message env st c r txt token now oc =
     (case jwt_verify env token of
        None \<Rightarrow> (st, [LogError ''Error saving message:''])
      | Some uid \<Rightarrow>
          (let newMessage = \<lparr>room = r, user = uid, message = txt, timestamp = now\<rparr> in
           case save oc (messages st) newMessage of
             None \<Rightarrow> (st, [LogError ''Error saving message:''])
           | Some (coll, i) \<Rightarrow>
               (let st1 = st\<lparr>messages := coll\<rparr> in
                case findById_populate env oc coll i of
                  None \<Rightarrow> (st1, [DbInsert newMessage, LogError ''Error saving message:''])
                | Some None \<Rightarrow>
                    (st1, [DbInsert newMessage, LogError ''Error saving message:''])
                | Some (Some (d, None)) \<Rightarrow>
                    (st1, [DbInsert newMessage, LogError ''Error saving message:''])
                | Some (Some (d, Some uname)) \<Rightarrow>
                    (st1, [DbInsert newMessage,
                           Emit (adapter st1 r) ''chat-message''
                             (ChatBroadcast (message d) uname (timestamp d))]))))"

text \<open>
  \<^verbatim>\<open>socket.on('disconnect', ...)\<close>: the socket has left every broadcast room, and the
  handler deletes it from every session, deleting a session whose \<^verbatim>\<open>users\<close> set becomes
  empty.
\<close>

definition disconnect ::
  "('c, 'r) server \<Rightarrow> 'c \<Rightarrow> ('c, 'r) server \<times> ('c, 'r) effect list" where
  "disconnect st c =
     (st\<lparr>adapter := (\<lambda>r. adapter st r |-| {|c|}),
         rooms := (\<lambda>r. case rooms st r of
                          None \<Rightarrow> None
                        | Some s \<Rightarrow>
                            (let s' = s\<lparr>users := users s |-| {|c|}\<rparr>
                             in if fcard (users s') = 0 then None else Some s'))\<rparr>,
      [])"

text \<open>The events of a socket (its connection, and what it can raise afterwards), and the
  server run over a sequence of them.\<close>

datatype ('c, 'r) event =
  Connect 'c
  | JoinRoom 'c 'r
  | VideoStateChange 'c 'r video_state
  | ChatMessage 'c 'r string "string option" nat store_outcome
  | Disconnect 'c

fun handle ::
  "environment \<Rightarrow> ('k, 'k) server \<Rightarrow> ('k, 'k) event
     \<Rightarrow> ('k, 'k) server \<times> ('k, 'k) effect list" where
  "handle env st (Connect c) = connect st c"
| "handle env st (JoinRoom c r) = join_room st c r"
| "handle env st (VideoStateChange c r vs) = video_state_change st c r vs"
| "handle env st (ChatMessage c r txt token now oc) = chat_message env st c r txt token now oc"
| "handle env st (Disconnect c) = disconnect st c"

definition run :: "environment \<Rightarrow> ('k, 'k) event list \<Rightarrow> ('k, 'k) server" where
  "run env evs = foldl (\<lambda>st e. fst (handle env st e)) initial evs"

text \<open>
  The connections currently joined to a room, read off the event sequence alone: those
  that asked to join it and have not disconnected since.
\<close>

definition joined :: "'r \<Rightarrow> ('c, 'r) event list \<Rightarrow> 'c fset" where
  "joined r evs =
     foldl (\<lambda>M e. case e of
                     JoinRoom c r' \<Rightarrow> if r' = r then finsert c M else M
                   | Disconnect c \<Rightarrow> M |-| {|c|}
                   | _ \<Rightarrow> M) {||} evs"

text \<open>
  The connected socket whose own id is the name \<open>r\<close>, if there is one: it has connected
  under that id and has not disconnected since.
\<close>

definition own_room :: "'k \<Rightarrow> ('k, 'k) event list \<Rightarrow> 'k fset" where
  "own_room r evs =
     foldl (\<lambda>M e. case e of
                     Connect c \<Rightarrow> if c = r then finsert c M else M
                   | Disconnect c \<Rightarrow> M |-| {|c|}
                   | _ \<Rightarrow> M) {||} evs"

section \<open>The video streaming route\<close>

text \<open>
  \<^verbatim>\<open>app.get('/api/stream/:roomId', authenticateToken, async (req, res) => ...)\<close>. Of the
  request the route reads the \<^verbatim>\<open>Authorization\<close> and \<^verbatim>\<open>Range\<close> headers and the room id of
  the path; of the response the model keeps the status, the headers the handler sets
  itself, and the body.
\<close>

record request =
  authorization :: "string option"
  roomId :: string
  range :: "string option"

text \<open>A header value is a string or a JavaScript number; a number is an integer or NaN
  (\<open>None\<close>). Every number that passes \<open>validateInteger\<close> below is an integer that
  JavaScript represents exactly.\<close>

datatype header_value = Str string | Num "int option"

datatype body = Text string | Stream "byte list"

record response =
  status :: nat
  headers :: "(string \<times> header_value) list"
  body :: body

text \<open>\<^verbatim>\<open>s.replace(/pat/, rep)\<close> for a literal pattern: the first occurrence is replaced.\<close>

fun js_replace :: "string \<Rightarrow> string \<Rightarrow> string \<Rightarrow> string" where
  "js_replace pat rep [] = (if pat = [] then rep else [])"
| "js_replace pat rep (c # cs) =
     (if take (length pat) (c # cs) = pat then rep @ drop (length pat) (c # cs)
      else c # js_replace pat rep cs)"

text \<open>\<^verbatim>\<open>s.split(sep)\<close> for a one-character separator.\<close>

fun js_split :: "char \<Rightarrow> string \<Rightarrow> string list" where
  "js_split sep [] = [[]]"
| "js_split sep (c # cs) =
     (if c = sep then [] # js_split sep cs
      else (case js_split sep cs of
              [] \<Rightarrow> [[c]]
            | p # ps \<Rightarrow> (c # p) # ps))"

text \<open>
  \<^verbatim>\<open>parseInt(s, 10)\<close>: leading white space is skipped, one sign is read, then the longest
  run of decimal digits; NaN when there is no digit. The value is kept as an exact
  integer: the rounding of JavaScript numbers above \<open>2\<^sup>5\<^sup>3\<close> (and \<^verbatim>\<open>Infinity\<close> for
  a run of more than 308 digits) is not modelled.
\<close>

definition is_space :: "char \<Rightarrow> bool" where
  "is_space c = (of_char c \<in> {9, 10, 11, 12, 13, 32, 160 :: nat})"

definition is_digit :: "char \<Rightarrow> bool" where
  "is_digit c = (48 \<le> (of_char c :: nat) \<and> (of_char c :: nat) \<le> 57)"

definition digits_value :: "string \<Rightarrow> nat" where
  "digits_value ds = foldl (\<lambda>acc c. 10 * acc + (of_char c - 48)) 0 ds"

definition parseInt :: "string \<Rightarrow> int option" where
  "parseInt s =
     (let t = dropWhile is_space s;
          signed = (case t of [] \<Rightarrow> False | c # _ \<Rightarrow> c = CHR ''-'' \<or> c = CHR ''+'');
          negative = (case t of [] \<Rightarrow> False | c # _ \<Rightarrow> c = CHR ''-'');
          ds = takeWhile is_digit (if signed then tl t else t)
      in if ds = [] then None
         else Some (if negative then - int (digits_value ds) else int (digits_value ds)))"

text \<open>A number inside a template literal: decimal digits, or \<^verbatim>\<open>NaN\<close>.\<close>

fun show_nat :: "nat \<Rightarrow> string" where
  "show_nat n =
     (if n < 10 then [char_of (48 + n)]
      else show_nat (n div 10) @ [char_of (48 + n mod 10)])"

declare show_nat.simps [simp del]

definition show_number :: "int option \<Rightarrow> string" where
  "show_number v =
     (case v of
        None \<Rightarrow> ''NaN''
      | Some i \<Rightarrow> if i < 0 then CHR ''-'' # show_nat (nat (- i)) else show_nat (nat i))"

text \<open>
  \<^verbatim>\<open>fs.createReadStream(filePath, { start, end })\<close>. Node checks both positions when the
  stream is made (an integer from 0 to \<open>2\<^sup>5\<^sup>3 - 1\<close>, and \<^verbatim>\<open>start <= end\<close>) and throws
  otherwise; the stream then yields the bytes from \<^verbatim>\<open>start\<close> to \<^verbatim>\<open>end\<close> inclusive, as
  far as the file has them.
\<close>

datatype error = ERR_OUT_OF_RANGE | ENOENT | QueryFailed

definition validateInteger :: "int option \<Rightarrow> bool" where
  "validateInteger v = (case v of None \<Rightarrow> False | Some i \<Rightarrow> 0 \<le> i \<and> i \<le> 2 ^ 53 - 1)"

definition createReadStream :: "byte list \<Rightarrow> int option \<Rightarrow> int option \<Rightarrow> error + byte list" where
  "createReadStream file start endpos =
     (case (start, endpos) of
        (Some s, Some e) \<Rightarrow>
          if validateInteger start \<and> validateInteger endpos \<and> s \<le> e
          then Inr (take (nat (e - s + 1)) (drop (nat s) file))
          else Inl ERR_OUT_OF_RANGE
      | _ \<Rightarrow> Inl ERR_OUT_OF_RANGE)"

text \<open>The two numbers the handler reads from a \<^verbatim>\<open>Range\<close> header:
  \<^verbatim>\<open>parts = range.replace(/bytes=/, "").split("-")\<close>, \<^verbatim>\<open>start = parseInt(parts[0], 10)\<close>,
  \<^verbatim>\<open>end = parts[1] ? parseInt(parts[1], 10) : fileSize - 1\<close>.\<close>

definition range_start :: "string \<Rightarrow> int option" where
  "range_start rng =
     (case js_split CHR ''-'' (js_replace ''bytes='' [] rng) of
        [] \<Rightarrow> None
      | p0 # _ \<Rightarrow> parseInt p0)"

definition range_end :: "nat \<Rightarrow> string \<Rightarrow> int option" where
  "range_end fileSize rng =
     (case js_split CHR ''-'' (js_replace ''bytes='' [] rng) of
        _ # p1 # _ \<Rightarrow> if p1 \<noteq> [] then parseInt p1 else Some (int fileSize - 1)
      | _ \<Rightarrow> Some (int fileSize - 1))"

definition chunksize :: "int option \<Rightarrow> int option \<Rightarrow> int option" where
  "chunksize start endpos =
     (case (start, endpos) of (Some s, Some e) \<Rightarrow> Some ((e - s) + 1) | _ \<Rightarrow> None)"

definition streaming_error :: response where
  "streaming_error = \<lparr>status = 500, headers = [], body = Text ''Error streaming video''\<rparr>"

definition video_not_found :: response where
  "video_not_found = \<lparr>status = 404, headers = [], body = Text ''Video not found''\<rparr>"

text \<open>
  The handler of the route. \<^verbatim>\<open>!room.localFilePath\<close> holds for a path that is not set and
  for the empty string; \<^verbatim>\<open>fs.statSync(filePath)\<close> throws when there is no such file, and
  otherwise \<^verbatim>\<open>fileSize\<close> is the length of its contents; \<^verbatim>\<open>if (range)\<close> holds for a
  header that is present and not empty. Every throw inside the \<^verbatim>\<open>try\<close> (the room query,
  \<^verbatim>\<open>statSync\<close>, \<^verbatim>\<open>createReadStream\<close>) ends in the \<^verbatim>\<open>catch\<close>, which answers 500.
\<close>

definition stream_video :: "environment \<Rightarrow> request \<Rightarrow> response" where
  "stream_video env req =
     (case findRoom env (roomId req) of
        None \<Rightarrow> streaming_error
      | Some None \<Rightarrow> video_not_found
      | Some (Some rm) \<Rightarrow>
          (case localFilePath rm of
             None \<Rightarrow> video_not_found
           | Some filePath \<Rightarrow>
               if \<not> isLocalFile rm \<or> filePath = [] then video_not_found
               else (case files env filePath of
                       None \<Rightarrow> streaming_error
                     | Some file \<Rightarrow>
                         (let fileSize = length file in
                          case range req of
                            Some (c # cs) \<Rightarrow>
                              (let start = range_start (c # cs);
                                   endpos = range_end fileSize (c # cs)
                               in case createReadStream file start endpos of
                                    Inl e \<Rightarrow> streaming_error
                                  | Inr bytes \<Rightarrow>
                                      \<lparr>status = 206,
                                       headers =
                                         [(''Content-Range'',
                                           Str (''bytes '' @ show_number start @ ''-'' @
                                                show_number endpos @ ''/'' @ show_nat fileSize)),
                                          (''Accept-Ranges'', Str ''bytes''),
                                          (''Content-Length'', Num (chunksize start endpos)),
                                          (''Content-Type'', Str ''video/mp4'')],
                                       body = Stream bytes\<rparr>)
                          | _ \<Rightarrow>
                              \<lparr>status = 200,
                               headers =
                                 [(''Content-Length'', Num (Some (int fileSize))),
                                  (''Content-Type'', Str ''video/mp4'')],
                               body = Stream file\<rparr>))))"

text \<open>
  The middleware \<^verbatim>\<open>authenticateToken\<close>: the token is the second piece of the
  \<^verbatim>\<open>Authorization\<close> header split at spaces; 401 without one, 403 when it does not
  verify, and otherwise the handler runs.
\<close>

definition bearer_token :: "request \<Rightarrow> string option" where
  "bearer_token req =
     (case authorization req of
        None \<Rightarrow> None
      | Some h \<Rightarrow> (case js_split CHR '' '' h of _ # t # _ \<Rightarrow> Some t | _ \<Rightarrow> None))"

definition authenticateToken :: "environment \<Rightarrow> request \<Rightarrow> response + string" where
  "authenticateToken env req =
     (case bearer_token req of
        None \<Rightarrow> Inl \<lparr>status = 401, headers = [], body = Text ''Unauthorized''\<rparr>
      | Some t \<Rightarrow>
          if t = [] then Inl \<lparr>status = 401, headers = [], body = Text ''Unauthorized''\<rparr>
          else (case jwt_verify env (Some t) of
                  None \<Rightarrow> Inl \<lparr>status = 403, headers = [], body = Text ''Forbidden''\<rparr>
                | Some u \<Rightarrow> Inr u))"

definition get_stream :: "environment \<Rightarrow> request \<Rightarrow> response" where
  "get_stream env req =
     (case authenticateToken env req of
        Inl denied \<Rightarrow> denied
      | Inr u \<Rightarrow> stream_video env req)"

section \<open>Notions used to state the properties\<close>

text \<open>
  In a trace of effects, every chat broadcast comes after the insertion of a document
  with the same text and timestamp.
\<close>

fun broadcast_after_insert :: "'r message_doc list \<Rightarrow> ('c, 'r) effect list \<Rightarrow> bool" where
  "broadcast_after_insert seen [] = True"
| "broadcast_after_insert seen (DbInsert d # es) = broadcast_after_insert (d # seen) es"
| "broadcast_after_insert seen (Emit M ev (ChatBroadcast m u t) # es) =
     (list_ex (\<lambda>d. message d = m \<and> timestamp d = t) seen \<and> broadcast_after_insert seen es)"
| "broadcast_after_insert seen (Emit M ev (VideoStateUpdate vs) # es) =
     broadcast_after_insert seen es"
| "broadcast_after_insert seen (LogError l # es) = broadcast_after_insert seen es"

text \<open>The request names a local-file room whose file exists with contents \<open>file\<close>.\<close>

definition serves_file :: "environment \<Rightarrow> request \<Rightarrow> byte list \<Rightarrow> bool" where
  "serves_file env req file =
     (case findRoom env (roomId req) of
        Some (Some rm) \<Rightarrow>
          isLocalFile rm \<and>
          (case localFilePath rm of
             None \<Rightarrow> False
           | Some filePath \<Rightarrow> filePath \<noteq> [] \<and> files env filePath = Some file)
      | _ \<Rightarrow> False)"

text \<open>The well-formed header \<^verbatim>\<open>bytes=<start>-<end?>\<close>.\<close>

definition range_header :: "nat \<Rightarrow> nat option \<Rightarrow> string" where
  "range_header s eo =
     ''bytes='' @ show_nat s @ ''-'' @ (case eo of None \<Rightarrow> [] | Some e \<Rightarrow> show_nat e)"

subsection \<open>Example data\<close>

text \<open>A file of 1000 bytes, two rooms that point to a local file (the file of the second
  is not there), one user and her token.\<close>

definition file1000 :: "byte list" where
  "file1000 = map of_nat [0..<1000]"

definition movie_room :: room_doc where
  "movie_room = \<lparr>name = Some ''movie night'', videoUrl = None, isLocalFile = True,
                 localFilePath = Some ''/videos/a.mp4'', pin = ''1234'',
                 creator = Some ''u1''\<rparr>"

definition env0 :: environment where
  "env0 = \<lparr>jwt_verify = (\<lambda>t. if t = Some ''tok-ann'' then Some ''u1'' else None),
           usernames = [''u1'' \<mapsto> ''ann''],
           findRoom = (\<lambda>i. if i = ''room1'' then Some (Some movie_room)
                            else if i = ''room2''
                            then Some (Some (movie_room\<lparr>localFilePath :=
                                                          Some ''/videos/gone.mp4''\<rparr>))
                            else Some None),
           files = [''/videos/a.mp4'' \<mapsto> file1000]\<rparr>"

definition req0 :: "string \<Rightarrow> string option \<Rightarrow> request" where
  "req0 rid rng = \<lparr>authorization = Some ''Bearer tok-ann'', roomId = rid, range = rng\<rparr>"

definition playing42 :: video_state where
  "playing42 = \<lparr>isPlaying = True, currentTime = 42\<rparr>"

definition evs0 :: "(string, string) event list" where
  "evs0 = [Connect ''a'', JoinRoom ''a'' ''r'', VideoStateChange ''a'' ''r'' playing42,
           ChatMessage ''a'' ''r'' ''hi'' (Some ''tok-ann'') 7 StoreOk]"

definition evs3 :: "(string, string) event list" where
  "evs3 = evs0 @ [Connect ''b'', JoinRoom ''b'' ''r'', Connect ''c'', JoinRoom ''c'' ''r'']"


section \<open>Properties of the gateway\<close>

lemma run_Nil: "run env [] = initial"
  by (simp add: run_def)

lemma run_snoc: "run env (evs @ [e]) = fst (handle env (run env evs) e)"
  by (simp add: run_def)

lemma joined_Nil: "joined r [] = {||}"
  by (simp add: joined_def)

lemma joined_snoc:
  "joined r (evs @ [Connect c]) = joined r evs"
  "joined r (evs @ [JoinRoom c r']) =
     (if r' = r then finsert c (joined r evs) else joined r evs)"
  "joined r (evs @ [VideoStateChange c r' vs]) = joined r evs"
  "joined r (evs @ [ChatMessage c r' txt token now oc]) = joined r evs"
  "joined r (evs @ [Disconnect c]) = joined r evs |-| {|c|}"
  unfolding joined_def by simp_all

lemma own_room_Nil: "own_room r [] = {||}"
  by (simp add: own_room_def)

lemma own_room_snoc:
  "own_room r (evs @ [Connect c]) =
     (if c = r then finsert c (own_room r evs) else own_room r evs)"
  "own_room r (evs @ [JoinRoom c r']) = own_room r evs"
  "own_room r (evs @ [VideoStateChange c r' vs]) = own_room r evs"
  "own_room r (evs @ [ChatMessage c r' txt token now oc]) = own_room r evs"
  "own_room r (evs @ [Disconnect c]) = own_room r evs |-| {|c|}"
  unfolding own_room_def by simp_all

lemma connect_keeps:
  "rooms (fst (connect st c)) = rooms st"
  "adapter (fst (connect st c)) = (adapter st)(c := finsert c (adapter st c))"
  by (simp_all add: connect_def)

lemma rooms_join_room:
  "rooms (fst (join_room st c r)) =
     (rooms st)(r \<mapsto> (case rooms st r of
                         None \<Rightarrow> default_session\<lparr>users := {|c|}\<rparr>
                       | Some s \<Rightarrow> s\<lparr>users := finsert c (users s)\<rparr>))"
  by (cases "rooms st r") (simp_all add: join_room_def Let_def default_session_def)

lemma adapter_join_room:
  "adapter (fst (join_room st c r)) = (adapter st)(r := finsert c (adapter st r))"
  by (cases "rooms st r") (simp_all add: join_room_def Let_def)

lemma rooms_video_state_change:
  "rooms (fst (video_state_change st c r vs)) =
     (case rooms st r of
        None \<Rightarrow> rooms st
      | Some s \<Rightarrow> (rooms st)(r \<mapsto> s\<lparr>videoState := vs\<rparr>))"
  by (simp add: video_state_change_def split: option.splits)

lemma adapter_video_state_change:
  "adapter (fst (video_state_change st c r vs)) = adapter st"
  by (simp add: video_state_change_def split: option.splits)

lemma chat_message_keeps:
  "rooms (fst (chat_message env st c r txt token now oc)) = rooms st"
  "adapter (fst (chat_message env st c r txt token now oc)) = adapter st"
  by (simp_all add: chat_message_def Let_def split: option.splits prod.splits)

lemma rooms_disconnect:
  "rooms (fst (disconnect st c)) r =
     (case rooms st r of
        None \<Rightarrow> None
      | Some s \<Rightarrow> if users s |-| {|c|} = {||} then None
                  else Some (s\<lparr>users := users s |-| {|c|}\<rparr>))"
  by (simp add: disconnect_def Let_def split: option.splits)

lemma adapter_disconnect:
  "adapter (fst (disconnect st c)) r = adapter st r |-| {|c|}"
  by (simp add: disconnect_def)

text \<open>
  Two invariants tie the state to the event sequence: a broadcast room holds the
  connections joined to it and the connected socket of that name, and the table has an
  entry for a room exactly when some connection is joined to it, with those connections
  as its \<^verbatim>\<open>users\<close>.
\<close>

lemma adapter_run: "adapter (run env evs) r = joined r evs |\<union>| own_room r evs"
proof (induction evs rule: rev_induct)
  case Nil
  show ?case
    by (simp add: run_Nil joined_Nil own_room_Nil initial_def)
next
  case (snoc e evs)
  show ?case
  proof (cases e)
    case (Connect c)
    with snoc show ?thesis
      by (cases "c = r") (simp_all add: run_snoc joined_snoc own_room_snoc connect_keeps)
  next
    case (JoinRoom c r')
    with snoc show ?thesis
      by (cases "r' = r") (simp_all add: run_snoc joined_snoc own_room_snoc adapter_join_room)
  next
    case (VideoStateChange c r' vs)
    with snoc show ?thesis
      by (simp add: run_snoc joined_snoc own_room_snoc adapter_video_state_change)
  next
    case (ChatMessage c r' msg tok t oc)
    with snoc show ?thesis
      by (simp add: run_snoc joined_snoc own_room_snoc chat_message_keeps)
  next
    case (Disconnect c)
    have "(joined r evs |\<union>| own_room r evs) |-| {|c|} =
          (joined r evs |-| {|c|}) |\<union>| (own_room r evs |-| {|c|})"
      by auto
    with snoc Disconnect show ?thesis
      by (simp add: run_snoc joined_snoc own_room_snoc adapter_disconnect)
  qed
qed

lemma users_run:
  "map_option users (rooms (run env evs) r) =
     (if joined r evs = {||} then None else Some (joined r evs))"
proof (induction evs rule: rev_induct)
  case Nil
  show ?case
    by (simp add: run_Nil joined_Nil initial_def)
next
  case (snoc e evs)
  let ?st = "run env evs"
  show ?case
  proof (cases e)
    case (Connect c)
    with snoc show ?thesis
      by (simp add: run_snoc joined_snoc connect_keeps)
  next
    case (JoinRoom c r')
    show ?thesis
    proof (cases "r' = r")
      case True
      with snoc JoinRoom show ?thesis
        by (cases "rooms ?st r")
           (simp_all add: run_snoc joined_snoc rooms_join_room default_session_def
              split: if_splits)
    next
      case False
      with snoc JoinRoom show ?thesis
        by (simp add: run_snoc joined_snoc rooms_join_room)
    qed
  next
    case (VideoStateChange c r' vs)
    show ?thesis
    proof (cases "rooms ?st r'")
      case None
      with snoc VideoStateChange show ?thesis
        by (simp add: run_snoc joined_snoc rooms_video_state_change)
    next
      case (Some s)
      with snoc VideoStateChange show ?thesis
        by (cases "r' = r") (simp_all add: run_snoc joined_snoc rooms_video_state_change)
    qed
  next
    case (ChatMessage c r' msg tok t oc)
    with snoc show ?thesis
      by (simp add: run_snoc joined_snoc chat_message_keeps)
  next
    case (Disconnect c)
    with snoc show ?thesis
      by (cases "rooms ?st r")
         (simp_all add: run_snoc joined_snoc rooms_disconnect split: if_splits)
  qed
qed

lemma session_of_run:
  "(rooms (run env evs) r \<noteq> None) = (joined r evs \<noteq> {||})"
  "rooms (run env evs) r = Some s \<Longrightarrow> users s = joined r evs"
  using users_run [of env evs r]
  by (auto split: if_splits)

lemma messages_join_room: "messages (fst (join_room st c r)) = messages st"
  by (cases "rooms st r") (simp_all add: join_room_def Let_def)

lemma messages_connect: "messages (fst (connect st c)) = messages st"
  by (simp add: connect_def)

text \<open>The example runs.\<close>

lemma rooms_evs0:
  "rooms (run env0 evs0) = [''r'' \<mapsto> \<lparr>videoState = playing42, users = {|''a''|}\<rparr>]"
  by (simp add: run_def evs0_def env0_def initial_def connect_def join_room_def
        video_state_change_def chat_message_def save_def findById_populate_def
        default_session_def Let_def)

lemma messages_evs0:
  "messages (run env0 evs0) =
     [\<lparr>room = ''r'', user = ''u1'', message = ''hi'', timestamp = 7\<rparr>]"
  by (simp add: run_def evs0_def env0_def initial_def connect_def join_room_def
        video_state_change_def chat_message_def save_def findById_populate_def
        default_session_def Let_def)

lemma joined_evs0: "joined ''r'' evs0 = {|''a''|}" "joined ''lobby'' evs0 = {||}"
  by (simp_all add: joined_def evs0_def)

lemma own_room_evs0: "own_room ''r'' evs0 = {||}" "own_room ''lobby'' evs0 = {||}"
  by (simp_all add: own_room_def evs0_def)

lemma joined_evs3: "joined ''r'' evs3 = {|''a'', ''b'', ''c''|}"
proof -
  have "joined ''r'' evs3 = finsert ''c'' (finsert ''b'' {|''a''|})"
    by (simp add: joined_def evs3_def evs0_def)
  also have "\<dots> = {|''a'', ''b'', ''c''|}"
    by (simp add: finsert_commute)
  finally show ?thesis .
qed

lemma own_room_evs3: "own_room ''r'' evs3 = {||}" "own_room ''q'' evs3 = {||}"
  by (simp_all add: own_room_def evs3_def evs0_def)


lemma messages_evs3:
  "messages (run env0 evs3) =
     [\<lparr>room = ''r'', user = ''u1'', message = ''hi'', timestamp = 7\<rparr>]"
proof -
  have "messages (run env0 evs3) =
        messages (fst (join_room (fst (connect (fst (join_room (fst (connect (run env0 evs0) ''b''))
          ''b'' ''r'')) ''c'')) ''c'' ''r''))"
    by (simp add: evs3_def run_def)
  then show ?thesis
    by (simp add: messages_join_room messages_connect messages_evs0)
qed




text \<open>
  C2. Whatever events the server has handled, the table has a session for a room exactly
  when some connection is joined to it (has asked to join and has not disconnected since),
  and the session's users are those connections. When the only member disconnects the
  session is deleted, and the next join creates it anew with the default state
  \<open>{isPlaying: false, currentTime: 0}\<close>, whatever the state was before.
\<close>

theorem session_exists_iff_joined:
  "(rooms (run env evs) r \<noteq> None) = (joined r evs \<noteq> {||}) \<and>
   map_option users (rooms (run env evs) r) =
     (if joined r evs = {||} then None else Some (joined r evs)) \<and>
   (joined r evs = {|c|} \<longrightarrow>
      rooms (run env (evs @ [Disconnect c])) r = None \<and>
      rooms (run env (evs @ [Disconnect c, JoinRoom c' r])) r =
        Some \<lparr>videoState = \<lparr>isPlaying = False, currentTime = 0\<rparr>, users = {|c'|}\<rparr>)"
proof (intro conjI impI)
  show "(rooms (run env evs) r \<noteq> None) = (joined r evs \<noteq> {||})"
    by (rule session_of_run)
  show "map_option users (rooms (run env evs) r) =
     (if joined r evs = {||} then None else Some (joined r evs))"
    by (rule users_run)
next
  assume only: "joined r evs = {|c|}"
  have "joined r (evs @ [Disconnect c]) = {||}"
    using only by (simp add: joined_snoc)
  then show gone: "rooms (run env (evs @ [Disconnect c])) r = None"
    using session_of_run(1) [of env "evs @ [Disconnect c]" r] by simp
  have "run env (evs @ [Disconnect c, JoinRoom c' r]) =
        fst (join_room (run env (evs @ [Disconnect c])) c' r)"
    using run_snoc [of env "evs @ [Disconnect c]" "JoinRoom c' r"] by simp
  then show "rooms (run env (evs @ [Disconnect c, JoinRoom c' r])) r =
        Some \<lparr>videoState = \<lparr>isPlaying = False, currentTime = 0\<rparr>, users = {|c'|}\<rparr>"
    using gone by (simp add: rooms_join_room default_session_def)
qed

theorem session_exists_iff_joined_witness:
  "joined ''r'' evs0 = {|''a''|} \<and>
   rooms (run env0 evs0) ''r'' = Some \<lparr>videoState = playing42, users = {|''a''|}\<rparr> \<and>
   rooms (run env0 (evs0 @ [Disconnect ''a''])) ''r'' = None \<and>
   rooms (run env0 (evs0 @ [Disconnect ''a'', JoinRoom ''b'' ''r''])) ''r'' =
     Some \<lparr>videoState = \<lparr>isPlaying = False, currentTime = 0\<rparr>, users = {|''b''|}\<rparr>"
  using session_exists_iff_joined [of env0 evs0 "''r''" "''a''" "''b''"]
  by (simp add: joined_evs0 rooms_evs0)

text \<open>
  C1, as the code has it. A \<^verbatim>\<open>join-room\<close> request registers the connection: it enters the
  broadcast room, a session with the default state is created if the room has none, and
  the connection is added to the session's users. The handler sends nothing, to the caller
  or to anyone else, and it does not read the stored messages.
\<close>

theorem join_room_registers_and_sends_nothing:
  "snd (join_room st c r) = [] \<and>
   rooms (fst (join_room st c r)) =
     (rooms st)(r \<mapsto> (case rooms st r of
                         None \<Rightarrow> \<lparr>videoState = \<lparr>isPlaying = False, currentTime = 0\<rparr>,
                                    users = {|c|}\<rparr>
                       | Some s \<Rightarrow> s\<lparr>users := finsert c (users s)\<rparr>)) \<and>
   adapter (fst (join_room st c r)) = (adapter st)(r := finsert c (adapter st r)) \<and>
   messages (fst (join_room st c r)) = messages st"
  by (cases "rooms st r") (simp_all add: join_room_def Let_def default_session_def)

theorem join_room_registers_and_sends_nothing_witness:
  "join_room (initial :: (string, string) server) ''a'' ''r'' =
     (\<lparr>rooms = [''r'' \<mapsto> \<lparr>videoState = \<lparr>isPlaying = False, currentTime = 0\<rparr>,
                            users = {|''a''|}\<rparr>],
       adapter = (\<lambda>_. {||})(''r'' := {|''a''|}),
       messages = []\<rparr>, [])"
  using join_room_registers_and_sends_nothing [of "initial :: (string, string) server" "''a''" "''r''"]
  by (simp add: initial_def join_room_def Let_def default_session_def)

text \<open>
  C1 as stated fails: a room has a session that is playing at 42 seconds and one stored
  chat message, a second connection joins, and the handler emits nothing at all.
\<close>

theorem join_room_replay_counterexample:
  "rooms (run env0 evs0) ''r'' = Some \<lparr>videoState = playing42, users = {|''a''|}\<rparr> \<and>
   messages (run env0 evs0) \<noteq> [] \<and>
   snd (join_room (run env0 evs0) ''b'' ''r'') = []"
  by (simp add: rooms_evs0 messages_evs0 join_room_def Let_def)




lemma chat_message_accepted:
  assumes "jwt_verify env token = Some uid" and "usernames env uid = Some uname"
  shows "chat_message env st c r txt token now StoreOk =
     (st\<lparr>messages := messages st @
          [\<lparr>room = r, user = uid, message = txt, timestamp = now\<rparr>]\<rparr>,
      [DbInsert \<lparr>room = r, user = uid, message = txt, timestamp = now\<rparr>,
       Emit (adapter st r) ''chat-message'' (ChatBroadcast txt uname now)])"
  using assms by (simp add: chat_message_def save_def findById_populate_def Let_def)

lemma chat_message_outcomes:
  assumes "jwt_verify env token = Some uid"
  shows "chat_message env st c r txt token now oc =
     (if oc = SaveFails then (st, [LogError ''Error saving message:''])
      else (st\<lparr>messages := messages st @
              [\<lparr>room = r, user = uid, message = txt, timestamp = now\<rparr>]\<rparr>,
            [DbInsert \<lparr>room = r, user = uid, message = txt, timestamp = now\<rparr>,
             (if oc = FindFails then LogError ''Error saving message:''
              else case usernames env uid of
                     None \<Rightarrow> LogError ''Error saving message:''
                   | Some uname \<Rightarrow>
                       Emit (adapter st r) ''chat-message'' (ChatBroadcast txt uname now))]))"
  using assms
  by (cases oc; cases "usernames env uid")
     (simp_all add: chat_message_def save_def findById_populate_def Let_def)

text \<open>
  C4. For a \<^verbatim>\<open>chat-message\<close> whose token verifies: in the handler's trace every broadcast
  comes after the insertion of the message; a broadcast goes to the whole broadcast room
  (all connections joined to the room, the sender too when it is joined, and the connected
  socket of that name if there is one), carries the text, the resolved username and the
  timestamp of the stored document, and that document is in the collection by then. When
  the store answers and the author exists, the message is stored and then broadcast.
\<close>

theorem chat_persisted_then_broadcast:
  assumes "jwt_verify env token = Some uid"
  shows "broadcast_after_insert [] (snd (chat_message env (run env evs) c r txt token now oc)) \<and>
   (\<forall>M ev p. Emit M ev p \<in> set (snd (chat_message env (run env evs) c r txt token now oc)) \<longrightarrow>
      M = joined r evs |\<union>| own_room r evs \<and> ev = ''chat-message'' \<and>
      (\<exists>uname. usernames env uid = Some uname \<and> p = ChatBroadcast txt uname now) \<and>
      \<lparr>room = r, user = uid, message = txt, timestamp = now\<rparr>
        \<in> set (messages (fst (chat_message env (run env evs) c r txt token now oc)))) \<and>
   (oc = StoreOk \<longrightarrow> (\<forall>uname. usernames env uid = Some uname \<longrightarrow>
      chat_message env (run env evs) c r txt token now oc =
        ((run env evs)\<lparr>messages := messages (run env evs) @
            [\<lparr>room = r, user = uid, message = txt, timestamp = now\<rparr>]\<rparr>,
         [DbInsert \<lparr>room = r, user = uid, message = txt, timestamp = now\<rparr>,
          Emit (joined r evs |\<union>| own_room r evs) ''chat-message''
            (ChatBroadcast txt uname now)])))"
  using assms
  by (cases oc; cases "usernames env uid")
     (simp_all add: chat_message_outcomes adapter_run)

theorem chat_persisted_then_broadcast_witness:
  "jwt_verify env0 (Some ''tok-ann'') = Some ''u1'' \<and>
   chat_message env0 (run env0 evs3) ''b'' ''r'' ''hello'' (Some ''tok-ann'') 9 StoreOk =
     ((run env0 evs3)\<lparr>messages := messages (run env0 evs3) @
         [\<lparr>room = ''r'', user = ''u1'', message = ''hello'', timestamp = 9\<rparr>]\<rparr>,
      [DbInsert \<lparr>room = ''r'', user = ''u1'', message = ''hello'', timestamp = 9\<rparr>,
       Emit {|''a'', ''b'', ''c''|} ''chat-message'' (ChatBroadcast ''hello'' ''ann'' 9)])"
proof -
  have tok: "jwt_verify env0 (Some ''tok-ann'') = Some ''u1''"
    by (simp add: env0_def)
  have usr: "usernames env0 ''u1'' = Some ''ann''"
    by (simp add: env0_def)
  have room: "joined ''r'' evs3 |\<union>| own_room ''r'' evs3 = {|''a'', ''b'', ''c''|}"
    by (simp add: joined_evs3 own_room_evs3)
  note accepted = chat_persisted_then_broadcast
      [OF tok, of evs3 "''b''" "''r''" "''hello''" 9 StoreOk,
       THEN conjunct2, THEN conjunct2, THEN mp, OF refl, THEN spec, THEN mp, OF usr]
  show ?thesis
    using accepted tok by (simp only: room simp_thms)
qed

text \<open>
  C5. When the token does not verify (missing, invalid or expired), or when the write to
  the store fails, the handler only logs: nothing is stored, nothing is emitted to the
  sender or to anyone, and the rooms, their playback state and the membership of the
  broadcast rooms are as before.
\<close>

theorem chat_rejected_is_silent:
  assumes "jwt_verify env token = None \<or> oc = SaveFails"
  shows "chat_message env st c r txt token now oc = (st, [LogError ''Error saving message:''])"
  using assms
  by (cases "jwt_verify env token") (auto simp: chat_message_def save_def Let_def)

theorem chat_rejected_is_silent_witness:
  "jwt_verify env0 (Some ''tok-expired'') = None \<and>
   chat_message env0 (run env0 evs3) ''b'' ''r'' ''hello'' (Some ''tok-expired'') 9 StoreOk =
     (run env0 evs3, [LogError ''Error saving message:'']) \<and>
   chat_message env0 (run env0 evs3) ''b'' ''r'' ''hello'' (Some ''tok-ann'') 9 SaveFails =
     (run env0 evs3, [LogError ''Error saving message:''])"
proof -
  have tok: "jwt_verify env0 (Some ''tok-expired'') = None"
    by (simp add: env0_def)
  show ?thesis
    using chat_rejected_is_silent
            [of env0 "Some ''tok-expired''" StoreOk "run env0 evs3" "''b''" "''r''" "''hello''" 9]
          chat_rejected_is_silent
            [of env0 "Some ''tok-ann''" SaveFails "run env0 evs3" "''b''" "''r''" "''hello''" 9]
          tok
    by simp
qed

text \<open>
  C10. The chat path looks at the token only: in any state of the server, for any sender
  and any room id, a message with a verifying token (of an existing author, the store
  answering) is stored and broadcast to the broadcast room of that id. Nothing is asked of
  the sender's membership or of the room's session.
\<close>

theorem chat_ignores_membership:
  assumes "jwt_verify env token = Some uid" and "usernames env uid = Some uname"
  shows "chat_message env st c r txt token now StoreOk =
     (st\<lparr>messages := messages st @
          [\<lparr>room = r, user = uid, message = txt, timestamp = now\<rparr>]\<rparr>,
      [DbInsert \<lparr>room = r, user = uid, message = txt, timestamp = now\<rparr>,
       Emit (adapter st r) ''chat-message'' (ChatBroadcast txt uname now)])"
  using assms by (rule chat_message_accepted)

theorem chat_ignores_membership_witness:
  "''x'' |\<notin>| adapter (run env0 evs0) ''r'' \<and>
   rooms (run env0 evs0) ''lobby'' = None \<and>
   chat_message env0 (run env0 evs0) ''x'' ''r'' ''hello'' (Some ''tok-ann'') 9 StoreOk =
     ((run env0 evs0)\<lparr>messages := messages (run env0 evs0) @
         [\<lparr>room = ''r'', user = ''u1'', message = ''hello'', timestamp = 9\<rparr>]\<rparr>,
      [DbInsert \<lparr>room = ''r'', user = ''u1'', message = ''hello'', timestamp = 9\<rparr>,
       Emit {|''a''|} ''chat-message'' (ChatBroadcast ''hello'' ''ann'' 9)]) \<and>
   chat_message env0 (run env0 evs0) ''x'' ''lobby'' ''hello'' (Some ''tok-ann'') 9 StoreOk =
     ((run env0 evs0)\<lparr>messages := messages (run env0 evs0) @
         [\<lparr>room = ''lobby'', user = ''u1'', message = ''hello'', timestamp = 9\<rparr>]\<rparr>,
      [DbInsert \<lparr>room = ''lobby'', user = ''u1'', message = ''hello'', timestamp = 9\<rparr>,
       Emit {||} ''chat-message'' (ChatBroadcast ''hello'' ''ann'' 9)])"
proof -
  have tok: "jwt_verify env0 (Some ''tok-ann'') = Some ''u1''"
    by (simp add: env0_def)
  have usr: "usernames env0 ''u1'' = Some ''ann''"
    by (simp add: env0_def)
  have ad: "adapter (run env0 evs0) ''r'' = {|''a''|}" "adapter (run env0 evs0) ''lobby'' = {||}"
    "rooms (run env0 evs0) ''lobby'' = None"
    by (simp_all add: adapter_run joined_evs0 own_room_evs0 rooms_evs0)
  show ?thesis
    using chat_ignores_membership [OF tok usr, of "run env0 evs0" "''x''" "''r''" "''hello''" 9]
          chat_ignores_membership [OF tok usr, of "run env0 evs0" "''x''" "''lobby''" "''hello''" 9]
    by (simp add: ad)
qed

section \<open>Properties of the streaming route\<close>

text \<open>Decimal digits written by \<open>show_nat\<close> are read back by \<open>parseInt\<close>.\<close>

lemma of_char_digit: "d < 10 \<Longrightarrow> (of_char (char_of (48 + d :: nat)) :: nat) = 48 + d"
  by simp

lemma is_digit_char_of: "d < 10 \<Longrightarrow> is_digit (char_of (48 + d :: nat))"
  by (simp add: is_digit_def)

lemma show_nat_digits: "c \<in> set (show_nat n) \<Longrightarrow> is_digit c"
proof (induction n rule: show_nat.induct)
  case (1 n)
  show ?case
  proof (cases "n < 10")
    case True
    with "1.prems" show ?thesis
      by (simp add: show_nat.simps [of n] is_digit_char_of)
  next
    case False
    have "is_digit (char_of (48 + n mod 10))"
      by (rule is_digit_char_of) simp
    with False "1.prems" "1.IH" show ?thesis
      by (auto simp: show_nat.simps [of n])
  qed
qed

lemma show_nat_not_Nil: "show_nat n \<noteq> []"
  by (simp add: show_nat.simps [of n])

lemma digits_value_snoc:
  "digits_value (ds @ [c]) = 10 * digits_value ds + (of_char c - 48)"
  by (simp add: digits_value_def)

lemma digits_value_show_nat: "digits_value (show_nat n) = n"
proof (induction n rule: show_nat.induct)
  case (1 n)
  show ?case
  proof (cases "n < 10")
    case True
    then show ?thesis by (simp add: show_nat.simps [of n] digits_value_def)
  next
    case False
    with 1 have ih: "digits_value (show_nat (n div 10)) = n div 10" by simp
    have "(of_char (char_of (48 + n mod 10)) :: nat) - 48 = n mod 10"
      by (simp add: of_char_digit)
    with ih False show ?thesis
      by (simp add: show_nat.simps [of n] digits_value_snoc)
  qed
qed

lemma digit_not_space: "is_digit c \<Longrightarrow> \<not> is_space c"
  by (auto simp: is_digit_def is_space_def)

lemma digit_not_sign: "is_digit c \<Longrightarrow> c \<noteq> CHR ''-'' \<and> c \<noteq> CHR ''+''"
  by (auto simp: is_digit_def)

lemma parseInt_digits:
  assumes "ds \<noteq> []" and "\<And>c. c \<in> set ds \<Longrightarrow> is_digit c"
  shows "parseInt ds = Some (int (digits_value ds))"
proof -
  from assms obtain c cs where ds: "ds = c # cs" by (cases ds) auto
  with assms(2) have c: "is_digit c" by simp
  have dw: "dropWhile is_space ds = ds"
    using c ds by (simp add: digit_not_space)
  have tw: "takeWhile is_digit ds = ds"
    using assms(2) by (simp add: takeWhile_eq_all_conv)
  have signed: "(case ds of [] \<Rightarrow> False | c # _ \<Rightarrow> c = CHR ''-'' \<or> c = CHR ''+'') = False"
    using digit_not_sign [OF c] by (simp add: ds)
  have negative: "(case ds of [] \<Rightarrow> False | c # _ \<Rightarrow> c = CHR ''-'') = False"
    using digit_not_sign [OF c] by (simp add: ds)
  show ?thesis
    unfolding parseInt_def Let_def dw signed negative if_False tw
    using assms(1) by simp
qed

lemma parseInt_show_nat: "parseInt (show_nat n) = Some (int n)"
  using parseInt_digits [of "show_nat n"] show_nat_not_Nil [of n] show_nat_digits [of _ n]
  by (simp add: digits_value_show_nat)

text \<open>The pieces of a well-formed header, and the two numbers read from it.\<close>

lemma js_split_no_sep: "sep \<notin> set s \<Longrightarrow> js_split sep s = [s]"
  by (induction s) auto

lemma js_split_first:
  "sep \<notin> set a \<Longrightarrow> js_split sep (a @ sep # b) = a # js_split sep b"
  by (induction a) auto

lemma show_nat_no_dash: "CHR ''-'' \<notin> set (show_nat n)"
  using show_nat_digits [of "CHR ''-''" n] by (auto simp: is_digit_def)

lemma range_parts:
  "js_split CHR ''-'' (js_replace ''bytes='' [] (range_header s eo)) =
     [show_nat s, case eo of None \<Rightarrow> [] | Some e \<Rightarrow> show_nat e]"
proof -
  have "js_replace ''bytes='' [] (range_header s eo) =
        show_nat s @ CHR ''-'' # (case eo of None \<Rightarrow> [] | Some e \<Rightarrow> show_nat e)"
    by (simp add: range_header_def)
  moreover have "js_split CHR ''-'' (case eo of None \<Rightarrow> [] | Some e \<Rightarrow> show_nat e) =
        [case eo of None \<Rightarrow> [] | Some e \<Rightarrow> show_nat e]"
    by (cases eo) (simp_all add: js_split_no_sep show_nat_no_dash)
  ultimately show ?thesis
    by (simp add: js_split_first show_nat_no_dash)
qed

lemma range_start_header: "range_start (range_header s eo) = Some (int s)"
  by (simp add: range_start_def range_parts parseInt_show_nat)

lemma range_end_header:
  "range_end n (range_header s eo) =
     Some (case eo of None \<Rightarrow> int n - 1 | Some e \<Rightarrow> int e)"
  by (cases eo) (simp_all add: range_end_def range_parts parseInt_show_nat show_nat_not_Nil)

lemma range_header_Cons: "range_header s eo = CHR ''b'' # tl (range_header s eo)"
  by (simp add: range_header_def)

lemma show_number_nat: "show_number (Some (int n)) = show_nat n"
  by (simp add: show_number_def)

text \<open>The handler on a room whose file exists: first for any header, then for a
  well-formed one whose positions pass the checks of \<open>createReadStream\<close>.\<close>

lemma createReadStream_window:
  assumes "s \<le> e" and "e < 2 ^ 53"
  shows "createReadStream file (Some (int s)) (Some (int e)) =
           Inr (take (e - s + 1) (drop s file))"
proof -
  have "int e < 2 ^ 53" using assms(2) by simp
  then have "int e \<le> 2 ^ 53 - 1" by simp
  moreover have "int s \<le> 2 ^ 53 - 1" using assms(1) \<open>int e \<le> 2 ^ 53 - 1\<close> by linarith
  moreover have "nat (int e - int s + 1) = e - s + 1" using assms(1) by linarith
  ultimately show ?thesis
    using assms(1) by (simp add: createReadStream_def validateInteger_def)
qed

lemma stream_video_served:
  assumes "serves_file env req file"
  shows "stream_video env req =
     (case range req of
        Some (c # cs) \<Rightarrow>
          (case createReadStream file (range_start (c # cs)) (range_end (length file) (c # cs)) of
             Inl e \<Rightarrow> streaming_error
           | Inr bytes \<Rightarrow>
               \<lparr>status = 206,
                headers =
                  [(''Content-Range'',
                    Str (''bytes '' @ show_number (range_start (c # cs)) @ ''-'' @
                         show_number (range_end (length file) (c # cs)) @ ''/'' @
                         show_nat (length file))),
                   (''Accept-Ranges'', Str ''bytes''),
                   (''Content-Length'',
                    Num (chunksize (range_start (c # cs)) (range_end (length file) (c # cs)))),
                   (''Content-Type'', Str ''video/mp4'')],
                body = Stream bytes\<rparr>)
      | _ \<Rightarrow>
          \<lparr>status = 200,
           headers = [(''Content-Length'', Num (Some (int (length file)))),
                      (''Content-Type'', Str ''video/mp4'')],
           body = Stream file\<rparr>)"
  using assms
  by (auto simp: serves_file_def stream_video_def Let_def split: option.splits list.splits)

lemma stream_video_window:
  assumes served: "serves_file env req file"
    and hdr: "range req = Some (range_header s eo)"
    and e: "e = (case eo of None \<Rightarrow> length file - 1 | Some e' \<Rightarrow> e')"
    and nonempty: "eo = None \<longrightarrow> file \<noteq> []"
    and le: "s \<le> e" and safe: "e < 2 ^ 53"
  shows "stream_video env req =
     \<lparr>status = 206,
      headers =
        [(''Content-Range'',
          Str (''bytes '' @ show_nat s @ ''-'' @ show_nat e @ ''/'' @ show_nat (length file))),
         (''Accept-Ranges'', Str ''bytes''),
         (''Content-Length'', Num (Some (int e - int s + 1))),
         (''Content-Type'', Str ''video/mp4'')],
      body = Stream (take (e - s + 1) (drop s file))\<rparr>"
proof -
  obtain c cs where cons: "range_header s eo = c # cs"
    using range_header_Cons [of s eo] by blast
  have st: "range_start (c # cs) = Some (int s)"
    using range_start_header [of s eo] by (simp add: cons)
  have "(case eo of None \<Rightarrow> int (length file) - 1 | Some e' \<Rightarrow> int e') = int e"
    using e nonempty by (cases eo; cases "file") simp_all
  then have en: "range_end (length file) (c # cs) = Some (int e)"
    using range_end_header [of "length file" s eo] by (simp add: cons)
  show ?thesis
    using hdr
    by (simp add: stream_video_served [OF served] cons st en
          createReadStream_window [OF le safe] show_number_nat chunksize_def)
qed

lemma show_nat_examples:
  "show_nat 0 = ''0''" "show_nat 99 = ''99''" "show_nat 500 = ''500''"
  "show_nat 999 = ''999''" "show_nat 1000 = ''1000''" "show_nat 5000 = ''5000''"
  "show_nat 6000 = ''6000''"
  by code_simp+

lemma length_file1000: "length file1000 = 1000"
  by (simp add: file1000_def)

lemma serves_room1: "serves_file env0 (req0 ''room1'' rng) file1000"
  by (simp add: serves_file_def env0_def req0_def movie_room_def)

lemma served_status:
  assumes "serves_file env req content"
  shows "status (stream_video env req) \<in> {200, 206, 500}"
proof (cases "range req")
  case None
  then show ?thesis by (simp add: stream_video_served [OF assms])
next
  case (Some rng)
  show ?thesis
  proof (cases rng)
    case Nil
    with Some show ?thesis by (simp add: stream_video_served [OF assms])
  next
    case (Cons c cs)
    with Some show ?thesis
      by (cases "createReadStream content (range_start (c # cs))
                   (range_end (length content) (c # cs))")
         (simp_all add: stream_video_served [OF assms] streaming_error_def)
  qed
qed

lemma stream_video_status_404:
  "(status (stream_video env req) = 404) =
     (case findRoom env (roomId req) of
        None \<Rightarrow> False
      | Some None \<Rightarrow> True
      | Some (Some rm) \<Rightarrow>
          \<not> isLocalFile rm \<or> localFilePath rm = None \<or> localFilePath rm = Some [])"
proof (cases "findRoom env (roomId req)")
  case None
  then show ?thesis by (simp add: stream_video_def streaming_error_def)
next
  case (Some found)
  note query = Some
  show ?thesis
  proof (cases found)
    case None
    with query show ?thesis by (simp add: stream_video_def video_not_found_def)
  next
    case (Some rm)
    note rm = Some
    show ?thesis
    proof (cases "localFilePath rm")
      case None
      with query rm show ?thesis by (simp add: stream_video_def video_not_found_def)
    next
      case (Some filePath)
      note path = Some
      show ?thesis
      proof (cases "\<not> isLocalFile rm \<or> filePath = []")
        case True
        with query rm path show ?thesis
          by (auto simp: stream_video_def video_not_found_def)
      next
        case False
        show ?thesis
        proof (cases "files env filePath")
          case None
          with query rm path False show ?thesis
            by (simp add: stream_video_def streaming_error_def)
        next
          case (Some content)
          with query rm path False have "serves_file env req content"
            by (simp add: serves_file_def)
          then have "status (stream_video env req) \<noteq> 404"
            using served_status [of env req content] by auto
          with query rm path False show ?thesis by simp
        qed
      qed
    qed
  qed
qed

lemma stream_video_missing_file:
  assumes "findRoom env (roomId req) = Some (Some rm)" and "isLocalFile rm"
    and "localFilePath rm = Some filePath" and "filePath \<noteq> []"
    and "files env filePath = None"
  shows "stream_video env req = streaming_error"
  using assms by (simp add: stream_video_def)

lemma authenticated_req0: "authenticateToken env0 (req0 rid rng) = Inr ''u1''"
  by (simp add: authenticateToken_def bearer_token_def req0_def env0_def)

lemma range_start_examples:
  "range_start ''5-10'' = Some 5" "range_end n ''5-10'' = Some 10"
  "range_start ''garbage'' = None"
  by (simp_all add: range_start_def range_end_def parseInt_def is_space_def is_digit_def
        digits_value_def)

text \<open>
  C6, as the code has it. The start position read from a header \<^verbatim>\<open>bytes=<start>-<end?>\<close>
  is the submitted start itself: nothing clamps it. With an end not below it (and both
  within the integers Node accepts as positions) the response is 206, its
  \<^verbatim>\<open>Content-Range\<close> names that start, and the body is read from that position, also
  when the start lies beyond the last byte of the file.
\<close>

theorem range_start_not_clamped:
  "range_start (range_header s eo) = Some (int s) \<and>
   (serves_file env req file \<and> range req = Some (range_header s (Some e)) \<and>
    s \<le> e \<and> e < 2 ^ 53 \<longrightarrow>
      status (stream_video env req) = 206 \<and>
      map_of (headers (stream_video env req)) ''Content-Range'' =
        Some (Str (''bytes '' @ show_nat s @ ''-'' @ show_nat e @ ''/'' @
                   show_nat (length file))) \<and>
      body (stream_video env req) = Stream (take (e - s + 1) (drop s file)))"
proof (intro conjI impI)
  show "range_start (range_header s eo) = Some (int s)"
    by (rule range_start_header)
next
  assume a: "serves_file env req file \<and> range req = Some (range_header s (Some e)) \<and>
    s \<le> e \<and> e < 2 ^ 53"
  then have resp: "stream_video env req =
     \<lparr>status = 206,
      headers =
        [(''Content-Range'',
          Str (''bytes '' @ show_nat s @ ''-'' @ show_nat e @ ''/'' @ show_nat (length file))),
         (''Accept-Ranges'', Str ''bytes''),
         (''Content-Length'', Num (Some (int e - int s + 1))),
         (''Content-Type'', Str ''video/mp4'')],
      body = Stream (take (e - s + 1) (drop s file))\<rparr>"
    using stream_video_window [of env req "file" s "Some e" e] by simp
  show "status (stream_video env req) = 206"
    by (simp add: resp)
  show "map_of (headers (stream_video env req)) ''Content-Range'' =
        Some (Str (''bytes '' @ show_nat s @ ''-'' @ show_nat e @ ''/'' @
                   show_nat (length file)))"
    by (simp add: resp)
  show "body (stream_video env req) = Stream (take (e - s + 1) (drop s file))"
    by (simp add: resp)
qed

theorem range_start_not_clamped_witness:
  "range_start ''bytes=5000-6000'' = Some 5000 \<and>
   status (stream_video env0 (req0 ''room1'' (Some ''bytes=5000-6000''))) = 206 \<and>
   map_of (headers (stream_video env0 (req0 ''room1'' (Some ''bytes=5000-6000''))))
     ''Content-Range'' = Some (Str ''bytes 5000-6000/1000'') \<and>
   body (stream_video env0 (req0 ''room1'' (Some ''bytes=5000-6000''))) = Stream []"
proof -
  have hdr: "range_header 5000 (Some 6000) = ''bytes=5000-6000''"
    by (simp add: range_header_def show_nat_examples)
  have rng: "range (req0 ''room1'' (Some ''bytes=5000-6000'')) = Some (range_header 5000 (Some 6000))"
    by (simp add: req0_def hdr)
  have le: "(5000::nat) \<le> 6000 \<and> (6000::nat) < 2 ^ 53"
    by simp
  note inst = range_start_not_clamped
      [of 5000 "Some 6000" env0 "req0 ''room1'' (Some ''bytes=5000-6000'')" file1000 6000]
  show ?thesis
    using inst [THEN conjunct1] inst [THEN conjunct2, THEN mp, OF conjI [OF serves_room1 conjI [OF rng le]]]
    by (simp add: hdr show_nat_examples length_file1000)
qed

text \<open>
  C6 as stated fails: for \<^verbatim>\<open>bytes=5000-6000\<close> on the file of 1000 bytes the start used is
  5000, above \<open>fileSize - 1 = 999\<close>, and the response is 206 with
  \<^verbatim>\<open>Content-Range: bytes 5000-6000/1000\<close>.
\<close>

theorem range_start_clamped_counterexample:
  "range_start ''bytes=5000-6000'' = Some 5000 \<and>
   \<not> (5000 \<le> int (length file1000) - 1) \<and>
   stream_video env0 (req0 ''room1'' (Some ''bytes=5000-6000'')) =
     \<lparr>status = 206,
      headers = [(''Content-Range'', Str ''bytes 5000-6000/1000''),
                 (''Accept-Ranges'', Str ''bytes''),
                 (''Content-Length'', Num (Some 1001)),
                 (''Content-Type'', Str ''video/mp4'')],
      body = Stream []\<rparr>"
proof -
  have hdr: "range_header 5000 (Some 6000) = ''bytes=5000-6000''"
    by (simp add: range_header_def show_nat_examples)
  have rng: "range (req0 ''room1'' (Some ''bytes=5000-6000'')) = Some (range_header 5000 (Some 6000))"
    by (simp add: req0_def hdr)
  have "range_start ''bytes=5000-6000'' = Some 5000"
    using range_start_header [of 5000 "Some 6000"] by (simp add: hdr)
  moreover have "stream_video env0 (req0 ''room1'' (Some ''bytes=5000-6000'')) =
     \<lparr>status = 206,
      headers = [(''Content-Range'', Str ''bytes 5000-6000/1000''),
                 (''Accept-Ranges'', Str ''bytes''),
                 (''Content-Length'', Num (Some 1001)),
                 (''Content-Type'', Str ''video/mp4'')],
      body = Stream []\<rparr>"
    using stream_video_window [OF serves_room1 rng, of 6000]
    by (simp add: show_nat_examples length_file1000)
  ultimately show ?thesis
    by (simp add: length_file1000)
qed

text \<open>
  C7. On a local-file room whose file exists (of at most \<open>2\<^sup>5\<^sup>3\<close> bytes, the sizes a
  JavaScript number holds exactly), for the header \<^verbatim>\<open>bytes=start-end\<close> or
  \<^verbatim>\<open>bytes=start-\<close> (then \<open>end = fileSize - 1\<close>) with \<open>start \<le> end \<le> fileSize - 1\<close>: the
  response has status 206, \<^verbatim>\<open>Content-Range: bytes start-end/fileSize\<close>,
  \<^verbatim>\<open>Accept-Ranges: bytes\<close>, \<^verbatim>\<open>Content-Length\<close> \<open>end - start + 1\<close>, and its body is the
  bytes of the file from \<open>start\<close> to \<open>end\<close>, \<open>end - start + 1\<close> of them.
\<close>

theorem range_request_partial_content:
  assumes "serves_file env req file"
    and "range req = Some (range_header s eo)"
    and "e = (case eo of None \<Rightarrow> length file - 1 | Some e' \<Rightarrow> e')"
    and "s \<le> e" and "e < length file" and "length file \<le> 2 ^ 53"
  shows "stream_video env req =
     \<lparr>status = 206,
      headers =
        [(''Content-Range'',
          Str (''bytes '' @ show_nat s @ ''-'' @ show_nat e @ ''/'' @ show_nat (length file))),
         (''Accept-Ranges'', Str ''bytes''),
         (''Content-Length'', Num (Some (int (e - s + 1)))),
         (''Content-Type'', Str ''video/mp4'')],
      body = Stream (take (e - s + 1) (drop s file))\<rparr> \<and>
     length (take (e - s + 1) (drop s file)) = e - s + 1"
proof -
  have ne: "eo = None \<longrightarrow> file \<noteq> []" using assms(5) by auto
  have safe: "e < 2 ^ 53" using assms(5,6) by linarith
  have "int e - int s + 1 = int (e - s + 1)" using assms(4) by linarith
  then show ?thesis
    using stream_video_window [OF assms(1) assms(2) assms(3) ne assms(4) safe] assms(4,5)
    by simp
qed

theorem range_request_partial_content_witness:
  "stream_video env0 (req0 ''room1'' (Some ''bytes=0-99'')) =
     \<lparr>status = 206,
      headers = [(''Content-Range'', Str ''bytes 0-99/1000''),
                 (''Accept-Ranges'', Str ''bytes''),
                 (''Content-Length'', Num (Some 100)),
                 (''Content-Type'', Str ''video/mp4'')],
      body = Stream (take 100 file1000)\<rparr> \<and>
   stream_video env0 (req0 ''room1'' (Some ''bytes=500-'')) =
     \<lparr>status = 206,
      headers = [(''Content-Range'', Str ''bytes 500-999/1000''),
                 (''Accept-Ranges'', Str ''bytes''),
                 (''Content-Length'', Num (Some 500)),
                 (''Content-Type'', Str ''video/mp4'')],
      body = Stream (drop 500 file1000)\<rparr>"
proof -
  have h1: "range (req0 ''room1'' (Some ''bytes=0-99'')) = Some (range_header 0 (Some 99))"
    by (simp add: req0_def range_header_def show_nat_examples)
  have h2: "range (req0 ''room1'' (Some ''bytes=500-'')) = Some (range_header 500 None)"
    by (simp add: req0_def range_header_def show_nat_examples)
  show ?thesis
    using range_request_partial_content [OF serves_room1 h1, of 99]
      range_request_partial_content [OF serves_room1 h2, of 999]
    by (simp add: length_file1000 show_nat_examples)
qed

text \<open>
  C8, as the code has it. On a local-file room whose file exists, a request without a
  \<^verbatim>\<open>Range\<close> header, or with an empty one, gets the full response: status 200,
  \<^verbatim>\<open>Content-Length\<close> the file size, the whole file as body. Any other header takes the
  range branch, whatever its form: the response is 206 or 500, never the full one.
\<close>

theorem absent_range_full_response:
  assumes "serves_file env req file"
  shows "(range req = None \<or> range req = Some [] \<longrightarrow>
            stream_video env req =
              \<lparr>status = 200,
               headers = [(''Content-Length'', Num (Some (int (length file)))),
                          (''Content-Type'', Str ''video/mp4'')],
               body = Stream file\<rparr>) \<and>
         (\<forall>c cs. range req = Some (c # cs) \<longrightarrow>
            status (stream_video env req) = 206 \<or> status (stream_video env req) = 500)"
proof (intro conjI impI allI)
  assume "range req = None \<or> range req = Some []"
  then show "stream_video env req =
              \<lparr>status = 200,
               headers = [(''Content-Length'', Num (Some (int (length file)))),
                          (''Content-Type'', Str ''video/mp4'')],
               body = Stream file\<rparr>"
    by (auto simp: stream_video_served [OF assms])
next
  fix c cs assume "range req = Some (c # cs)"
  then show "status (stream_video env req) = 206 \<or> status (stream_video env req) = 500"
    by (cases "createReadStream file (range_start (c # cs)) (range_end (length file) (c # cs))")
       (simp_all add: stream_video_served [OF assms] streaming_error_def)
qed

theorem absent_range_full_response_witness:
  "stream_video env0 (req0 ''room1'' None) =
     \<lparr>status = 200,
      headers = [(''Content-Length'', Num (Some 1000)), (''Content-Type'', Str ''video/mp4'')],
      body = Stream file1000\<rparr>"
proof -
  have "range (req0 ''room1'' None) = None \<or> range (req0 ''room1'' None) = Some []"
    by (simp add: req0_def)
  then show ?thesis
    using absent_range_full_response [OF serves_room1, of None, THEN conjunct1]
    by (simp add: length_file1000)
qed

text \<open>
  C8 as stated fails for malformed headers: \<^verbatim>\<open>5-10\<close>, which lacks the unit, is served as
  the range 5 to 10 with status 206, and \<^verbatim>\<open>garbage\<close> ends in status 500.
\<close>

theorem malformed_range_counterexample:
  "stream_video env0 (req0 ''room1'' (Some ''5-10'')) =
     \<lparr>status = 206,
      headers = [(''Content-Range'', Str ''bytes 5-10/1000''),
                 (''Accept-Ranges'', Str ''bytes''),
                 (''Content-Length'', Num (Some 6)),
                 (''Content-Type'', Str ''video/mp4'')],
      body = Stream (take 6 (drop 5 file1000))\<rparr> \<and>
   stream_video env0 (req0 ''room1'' (Some ''garbage'')) =
     \<lparr>status = 500, headers = [], body = Text ''Error streaming video''\<rparr>"
proof -
  have s5: "show_number (Some 5) = ''5''" "show_number (Some 10) = ''10''"
    by code_simp+
  have "range (req0 ''room1'' (Some ''5-10'')) = Some ''5-10''"
    "range (req0 ''room1'' (Some ''garbage'')) = Some ''garbage''"
    by (simp_all add: req0_def)
  then show ?thesis
    by (simp add: stream_video_served [OF serves_room1] range_start_examples
          createReadStream_def validateInteger_def chunksize_def s5 show_nat_examples
          length_file1000 streaming_error_def)
qed

text \<open>
  C9, as the code has it. For a request that passes \<^verbatim>\<open>authenticateToken\<close>, the status is
  404 exactly when the room query answers and finds no room, or the room is not a
  local-file room, or its file path is not set or empty. When such a room's file is not
  there, \<^verbatim>\<open>statSync\<close> throws and the response is 500.
\<close>

theorem not_found_exactly:
  assumes "authenticateToken env req = Inr u"
  shows "(status (get_stream env req) = 404) =
           (case findRoom env (roomId req) of
              None \<Rightarrow> False
            | Some None \<Rightarrow> True
            | Some (Some rm) \<Rightarrow>
                \<not> isLocalFile rm \<or> localFilePath rm = None \<or> localFilePath rm = Some []) \<and>
         (\<forall>rm filePath.
            findRoom env (roomId req) = Some (Some rm) \<and> isLocalFile rm \<and>
            localFilePath rm = Some filePath \<and> filePath \<noteq> [] \<and>
            files env filePath = None \<longrightarrow>
            get_stream env req =
              \<lparr>status = 500, headers = [], body = Text ''Error streaming video''\<rparr>)"
proof -
  have run: "get_stream env req = stream_video env req"
    using assms by (simp add: get_stream_def)
  show ?thesis
    unfolding run
    using stream_video_status_404 [of env req] stream_video_missing_file [of env req]
    by (auto simp: streaming_error_def)
qed

theorem not_found_exactly_witness:
  "authenticateToken env0 (req0 ''room9'' None) = Inr ''u1'' \<and>
   findRoom env0 ''room9'' = Some None \<and>
   status (get_stream env0 (req0 ''room9'' None)) = 404 \<and>
   status (get_stream env0 (req0 ''room1'' None)) \<noteq> 404"
proof -
  have none: "findRoom env0 (roomId (req0 ''room9'' None)) = Some None"
    by (simp add: env0_def req0_def)
  have some: "findRoom env0 (roomId (req0 ''room1'' None)) = Some (Some movie_room)"
    by (simp add: env0_def req0_def)
  have "status (get_stream env0 (req0 ''room9'' None)) = 404"
    using not_found_exactly [OF authenticated_req0, of "''room9''" None, THEN conjunct1]
    by (simp add: none)
  moreover have "status (get_stream env0 (req0 ''room1'' None)) \<noteq> 404"
    using not_found_exactly [OF authenticated_req0, of "''room1''" None, THEN conjunct1]
    by (simp add: some movie_room_def)
  moreover have "findRoom env0 ''room9'' = Some None"
    by (simp add: env0_def)
  ultimately show ?thesis
    using authenticated_req0 [of "''room9''" None] by simp
qed

text \<open>
  C9 as stated fails: an authenticated request for a local-file room whose file is missing
  from the storage gets 500, not 404.
\<close>

theorem missing_file_counterexample:
  "authenticateToken env0 (req0 ''room2'' None) = Inr ''u1'' \<and>
   findRoom env0 ''room2'' =
     Some (Some (movie_room\<lparr>localFilePath := Some ''/videos/gone.mp4''\<rparr>)) \<and>
   files env0 ''/videos/gone.mp4'' = None \<and>
   get_stream env0 (req0 ''room2'' None) =
     \<lparr>status = 500, headers = [], body = Text ''Error streaming video''\<rparr>"
proof -
  have room: "findRoom env0 ''room2'' =
     Some (Some (movie_room\<lparr>localFilePath := Some ''/videos/gone.mp4''\<rparr>))"
    by (simp add: env0_def)
  have gone: "files env0 ''/videos/gone.mp4'' = None"
    by (simp add: env0_def)
  have "stream_video env0 (req0 ''room2'' None) = streaming_error"
    by (simp add: stream_video_def env0_def req0_def movie_room_def)
  then have "get_stream env0 (req0 ''room2'' None) =
     \<lparr>status = 500, headers = [], body = Text ''Error streaming video''\<rparr>"
    by (simp add: get_stream_def authenticated_req0 streaming_error_def)
  with room gone show ?thesis
    using authenticated_req0 [of "''room2''" None] by simp
qed

end
